theory Spec2Isabelle
  imports Main "HOL-Library.Sublist"
begin

section \<open>Data model\<close>

text \<open>
  The browser's \<open>File\<close> as far as the component reads it: its display name, its MIME
  type and its bytes. Text is a \<open>string\<close> of bytes; the few characters of the prompts
  outside ASCII are written as their UTF-8 bytes.
\<close>

record jsfile =
  name :: string
  type :: string
  content :: string

text \<open>The six \<open>useState\<close> cells of \<open>App\<close>.\<close>

record app_state =
  "file" :: "jsfile option"
  isLoading :: bool
  loadingMessage :: string
  error :: "string option"
  result :: "string option"
  isDragging :: bool

text \<open>A thrown \<open>Error\<close> object; the handler reads its \<open>message\<close>.\<close>

datatype js_error = Error (message: string)

text \<open>
  What an \<open>await\<close> sees of a promise: it never settles, it rejects, or it fulfils.
\<close>

datatype 'a awaited = Pending | Rejected js_error | Fulfilled 'a

text \<open>
  The parts of a request: \<open>{ text: ... }\<close> and
  \<open>{ inlineData: { data, mimeType } }\<close>. The data is \<open>undefined\<close> when the data URL
  has no comma.
\<close>

datatype part = Text string | InlineData (data: "string option") (mimeType: string)

record request =
  model :: string
  parts :: "part list"

text \<open>
  The calls that leave the component, in the order they are made: the file handed to
  \<open>FileReader.readAsDataURL\<close>, and each \<open>generateContent\<close> request with what the
  \<open>await\<close> on it gave (the \<open>text\<close> of the response, absent when \<open>undefined\<close>).
\<close>

datatype event = FileRead jsfile | ModelCall request "string option awaited"

text \<open>
  The \<open>FileReader\<close>: \<open>readAsDataURL\<close> throws at once, or \<open>loadend\<close> fires with
  \<open>reader.result\<close> a data URL, or \<open>null\<close> after a read error.
\<close>

datatype reader_outcome = ReadThrows js_error | LoadEnd "string option"

text \<open>
  Everything outside the component: whether constructing the client throws, the file
  reader, and the generative service, which may answer each call differently (its state
  \<open>'w\<close> is threaded through the calls).
\<close>

record 'w env =
  newGoogleGenAI :: "js_error option"
  readAsDataURL :: "jsfile \<Rightarrow> reader_outcome"
  generateContent :: "'w \<Rightarrow> request \<Rightarrow> string option awaited \<times> 'w"
  world :: 'w

section \<open>File intake\<close>

definition handleFileChange :: "jsfile option \<Rightarrow> app_state \<Rightarrow> app_state" where
  "handleFileChange selectedFile s =
     (case selectedFile of
        Some f \<Rightarrow>
          if type f = ''application/pdf''
          then s\<lparr>file := Some f, error := None, result := None\<rparr>
          else s\<lparr>error := Some ''Please select a valid PDF file.'', file := None\<rparr>
      | None \<Rightarrow> s\<lparr>error := Some ''Please select a valid PDF file.'', file := None\<rparr>)"

section \<open>The encoder\<close>

text \<open>\<open>s.split(',')[1]\<close>: the text between the first comma and the next, if there is a comma.\<close>

definition split_comma_1 :: "string \<Rightarrow> string option" where
  "split_comma_1 s =
     (case dropWhile (\<lambda>c. c \<noteq> CHR '','') s of
        [] \<Rightarrow> None
      | _ # rest \<Rightarrow> Some (takeWhile (\<lambda>c. c \<noteq> CHR '','') rest))"

text \<open>
  The promise of \<open>fileToGenerativePart\<close> has a \<open>resolve\<close> only. An exception of the
  executor rejects it; \<open>onloadend\<close> with a \<open>null\<close> result throws inside the event
  handler, so the promise is never settled.
\<close>

definition fileToGenerativePart :: "(jsfile \<Rightarrow> reader_outcome) \<Rightarrow> jsfile \<Rightarrow> part awaited" where
  "fileToGenerativePart reader f =
     (case reader f of
        ReadThrows e \<Rightarrow> Rejected e
      | LoadEnd None \<Rightarrow> Pending
      | LoadEnd (Some url) \<Rightarrow> Fulfilled (InlineData (split_comma_1 url) (type f)))"

section \<open>The three-stage pipeline\<close>

definition promptStep1 :: string where
  "promptStep1 =
  ''
You are an expert document transcriber specializing in converting complex, bilingual (English and Bengali) PDF documents into flawless GitHub Flavored Markdown.

Your task is to perform a high-fidelity OCR and conversion of the provided PDF. The final output must be a single, clean Markdown document that is a perfect digital representation of the original.

Pay meticulous attention to the following details:
1.  **Bilingual Accuracy:** Transcribe all English and Bengali text with extreme precision. Ensure all characters, including compound characters ('' @
  [CHR 0xE0, CHR 0xA6, CHR 0xAF, CHR 0xE0, CHR 0xA7, CHR 0x81, CHR 0xE0, CHR 0xA6, CHR 0x95, CHR 0xE0, CHR 0xA7, CHR 0x8D, CHR 0xE0, CHR 0xA6, CHR 0xA4, CHR 0xE0, CHR 0xA6, CHR 0xBE, CHR 0xE0, CHR 0xA6, CHR 0x95, CHR 0xE0, CHR 0xA7, CHR 0x8D, CHR 0xE0, CHR 0xA6, CHR 0xB7, CHR 0xE0, CHR 0xA6, CHR 0xB0] @
  '') in Bengali, are rendered correctly.
2.  **Structural Integrity:** Replicate the heading hierarchy, paragraphs, and emphasis (bold, italic).
3.  **Complex Elements:** Reconstruct all tables using GitHub Flavored Markdown.
4.  **List Integrity:** Accurately replicate all ordered (numbered), unordered (bulleted), and nested lists. Preserve the exact indentation and nesting levels as seen in the original document.
5.  **Mathematical Equations & Special Symbols:** Transcribe all mathematical and scientific notations directly into their corresponding standard Unicode characters (e.g., '' @
  [CHR 0xE2, CHR 0x88, CHR 0x9A] @
  ''x instead of LaTeX).
6.  **Final Output:** The output MUST be **only** the final, clean Markdown text. Do NOT include any commentary or explanations.''"

definition promptStep2 :: string where
  "promptStep2 =
  ''
You are a meticulous document proofreader and quality control specialist. You have been given an original PDF document and a Markdown text that was generated from it via OCR.

Your task is to **compare the provided Markdown text against the original PDF** and correct any and all errors.

**Instructions:**
1.  **Cross-Reference:** Carefully examine the PDF and the Markdown side-by-side.
2.  **Correct Errors:** Fix any mistakes in the Markdown text. This includes:
    *   **OCR Errors:** Misspelled words, incorrect characters, especially in complex Bengali '' @
  [CHR 0xE0, CHR 0xA6, CHR 0xAF, CHR 0xE0, CHR 0xA7, CHR 0x81, CHR 0xE0, CHR 0xA6, CHR 0x95, CHR 0xE0, CHR 0xA7, CHR 0x8D, CHR 0xE0, CHR 0xA6, CHR 0xA4, CHR 0xE0, CHR 0xA6, CHR 0xBE, CHR 0xE0, CHR 0xA6, CHR 0x95, CHR 0xE0, CHR 0xA7, CHR 0x8D, CHR 0xE0, CHR 0xA6, CHR 0xB7, CHR 0xE0, CHR 0xA6, CHR 0xB0] @
  ''.
    *   **Formatting Errors:** Incorrect heading levels or broken tables. Pay special attention to **list formatting**. Ensure that ordered (numbered), unordered (bulleted), and nested lists are perfectly structured with correct indentation. Fix any improperly formatted lists or missed bold/italic text.
    *   **Structural Errors:** Missing paragraphs, incorrect line breaks.
    *   **Symbol Errors:** Ensure all mathematical and special symbols are correct Unicode characters as seen in the PDF.
3.  **Output:** Your output MUST be **only** the fully corrected, clean Markdown text. Do not add any commentary, notes, or explanations.''"

definition promptStep3 :: string where
  "promptStep3 =
  ''
You are a final quality assurance specialist performing the last check on a document conversion. You have been given an original PDF and a corrected Markdown version.

Your task is to conduct a **final, exhaustive review** to ensure the Markdown is a perfect, flawless representation of the PDF.

**Instructions:**
1.  **Final Scrutiny:** This is the last chance to catch any errors. Pay extreme attention to the smallest details.
2.  **Perfection Check:** Verify headings, tables, bilingual text (English and Bengali), and all special symbols one last time. Give special scrutiny to **all lists**. Ensure that all bullet points, numbered items, and nested sub-lists are perfectly formatted and indented, exactly mirroring the PDF's structure.
3.  **Clean Output:** Your output MUST be **only** the final, polished Markdown text. Do not include any explanations or introductory phrases. The goal is a perfect, ready-to-use document.''"

text \<open>\<open>!t\<close> for a \<open>string | undefined\<close>: absent or empty.\<close>

definition falsy :: "string option \<Rightarrow> bool" where
  "falsy t = (case t of None \<Rightarrow> True | Some x \<Rightarrow> x = [])"

text \<open>How the \<open>try\<close> block ends: at an \<open>await\<close> that never settles, by a throw, or normally.\<close>

datatype body_end = Suspended | Thrown js_error | Normal

definition step3 ::
  "'w env \<Rightarrow> part \<Rightarrow> 'w \<Rightarrow> string \<Rightarrow> app_state \<times> event list \<Rightarrow> app_state \<times> event list \<times> body_end" where
  "step3 env filePart w markdownStep2 st =
     (case st of (s, tr) \<Rightarrow>
        let s3 = s\<lparr>loadingMessage := ''Step 3 of 3: Applying final polish...''\<rparr>;
            req = \<lparr>model = ''gemini-2.5-flash'',
                   parts = [Text promptStep3, filePart,
                            Text (''\<newline>\<newline>--- CORRECTED MARKDOWN FOR FINAL POLISH ---\<newline>\<newline>'' @ markdownStep2)]\<rparr>
        in (case generateContent env w req of (responseStep3, w3) \<Rightarrow>
              let tr3 = tr @ [ModelCall req responseStep3]
              in (case responseStep3 of
                    Pending \<Rightarrow> (s3, tr3, Suspended)
                  | Rejected e \<Rightarrow> (s3, tr3, Thrown e)
                  | Fulfilled finalResult \<Rightarrow>
                      if falsy finalResult
                      then (s3, tr3, Thrown (Error ''Step 3 (Final Polish) failed or returned empty.''))
                      else (s3\<lparr>result := finalResult\<rparr>, tr3, Normal))))"

definition step2 ::
  "'w env \<Rightarrow> part \<Rightarrow> 'w \<Rightarrow> string \<Rightarrow> app_state \<times> event list \<Rightarrow> app_state \<times> event list \<times> body_end" where
  "step2 env filePart w markdownStep1 st =
     (case st of (s, tr) \<Rightarrow>
        let s2 = s\<lparr>loadingMessage := ''Step 2 of 3: Verifying and correcting the document...''\<rparr>;
            req = \<lparr>model = ''gemini-2.5-flash'',
                   parts = [Text promptStep2, filePart,
                            Text (''\<newline>\<newline>--- OCR-GENERATED MARKDOWN TO BE VERIFIED ---\<newline>\<newline>'' @ markdownStep1)]\<rparr>
        in (case generateContent env w req of (responseStep2, w2) \<Rightarrow>
              let tr2 = tr @ [ModelCall req responseStep2]
              in (case responseStep2 of
                    Pending \<Rightarrow> (s2, tr2, Suspended)
                  | Rejected e \<Rightarrow> (s2, tr2, Thrown e)
                  | Fulfilled markdownStep2 \<Rightarrow>
                      if falsy markdownStep2
                      then (s2, tr2, Thrown (Error ''Step 2 (Verification) failed or returned empty.''))
                      else step3 env filePart w2 (the markdownStep2) (s2, tr2))))"

definition step1 ::
  "'w env \<Rightarrow> part \<Rightarrow> app_state \<times> event list \<Rightarrow> app_state \<times> event list \<times> body_end" where
  "step1 env filePart st =
     (case st of (s, tr) \<Rightarrow>
        let s1 = s\<lparr>loadingMessage := ''Step 1 of 3: Performing initial conversion...''\<rparr>;
            req = \<lparr>model = ''gemini-2.5-flash'', parts = [Text promptStep1, filePart]\<rparr>
        in (case generateContent env (world env) req of (responseStep1, w1) \<Rightarrow>
              let tr1 = tr @ [ModelCall req responseStep1]
              in (case responseStep1 of
                    Pending \<Rightarrow> (s1, tr1, Suspended)
                  | Rejected e \<Rightarrow> (s1, tr1, Thrown e)
                  | Fulfilled markdownStep1 \<Rightarrow>
                      if falsy markdownStep1
                      then (s1, tr1, Thrown (Error ''Step 1 (Initial Conversion) failed or returned empty.''))
                      else step2 env filePart w1 (the markdownStep1) (s1, tr1))))"

text \<open>The body of the \<open>try\<close>: the client, the attachment (derived here, once), the stages.\<close>

definition tryBody :: "'w env \<Rightarrow> jsfile \<Rightarrow> app_state \<Rightarrow> app_state \<times> event list \<times> body_end" where
  "tryBody env f s =
     (case newGoogleGenAI env of
        Some e \<Rightarrow> (s, [], Thrown e)
      | None \<Rightarrow>
          (case fileToGenerativePart (readAsDataURL env) f of
             Pending \<Rightarrow> (s, [FileRead f], Suspended)
           | Rejected e \<Rightarrow> (s, [FileRead f], Thrown e)
           | Fulfilled filePart \<Rightarrow> step1 env filePart (s, [FileRead f])))"

text \<open>
  One call of \<open>handleConvert\<close>: the state it leaves, the outside calls it made, the
  error that \<open>catch\<close> received (if any), and whether it ran to its end (\<open>finally\<close>
  included) or is still waiting.
\<close>

record run =
  final :: app_state
  trace :: "event list"
  caught :: "js_error option"
  completed :: bool

definition handleConvert :: "'w env \<Rightarrow> app_state \<Rightarrow> run" where
  "handleConvert env s =
     (case file s of
        None \<Rightarrow>
          \<lparr>final = s\<lparr>error := Some ''Please select a file first.''\<rparr>, trace = [], caught = None, completed = True\<rparr>
      | Some f \<Rightarrow>
          (case tryBody env f (s\<lparr>isLoading := True, error := None, result := None\<rparr>) of
             (s', tr, Suspended) \<Rightarrow> \<lparr>final = s', trace = tr, caught = None, completed = False\<rparr>
           | (s', tr, Thrown err) \<Rightarrow>
               \<lparr>final = s'\<lparr>error := Some (''Error processing file: '' @ message err),
                              isLoading := False, loadingMessage := ''''\<rparr>,
                trace = tr, caught = Some err, completed = True\<rparr>
           | (s', tr, Normal) \<Rightarrow>
               \<lparr>final = s'\<lparr>isLoading := False, loadingMessage := ''''\<rparr>,
                trace = tr, caught = None, completed = True\<rparr>))"

section \<open>The download name\<close>

text \<open>
  \<open>s.replace(pat, rep)\<close> with a string pattern: the first occurrence of \<open>pat\<close> is
  replaced (\<open>rep\<close> holds no \<open>$\<close> here, so it is taken literally).
\<close>

fun replace_first :: "string \<Rightarrow> string \<Rightarrow> string \<Rightarrow> string" where
  "replace_first pat rep [] = (if pat = [] then rep else [])"
| "replace_first pat rep (c # cs) =
     (if take (length pat) (c # cs) = pat then rep @ drop (length pat) (c # cs)
      else c # replace_first pat rep cs)"

text \<open>\<open>file?.name.replace('.pdf', '.doc') || 'document.doc'\<close> of \<open>handleDownload\<close>.\<close>

definition fileName :: "jsfile option \<Rightarrow> string" where
  "fileName fo =
     (case fo of
        None \<Rightarrow> ''document.doc''
      | Some f \<Rightarrow>
          (let n = replace_first ''.pdf'' ''.doc'' (name f)
           in if n = [] then ''document.doc'' else n))"

section \<open>Reading a trace\<close>

text \<open>The requests sent to the service, what came back for each, and the files read.\<close>

fun requests :: "event list \<Rightarrow> request list" where
  "requests [] = []"
| "requests (FileRead f # es) = requests es"
| "requests (ModelCall q r # es) = q # requests es"

fun responses :: "event list \<Rightarrow> string option awaited list" where
  "responses [] = []"
| "responses (FileRead f # es) = responses es"
| "responses (ModelCall q r # es) = r # responses es"

fun reads :: "event list \<Rightarrow> jsfile list" where
  "reads [] = []"
| "reads (FileRead f # es) = f # reads es"
| "reads (ModelCall q r # es) = reads es"

section \<open>Example inputs\<close>

text \<open>The initial values of the state cells.\<close>

definition init_state :: app_state where
  "init_state =
     \<lparr>file = None, isLoading = False, loadingMessage = [], error = None, result = None,
      isDragging = False\<rparr>"

definition report_pdf :: jsfile where
  "report_pdf = \<lparr>name = ''report.pdf'', type = ''application/pdf'', content = ''%PDF-1.4''\<rparr>"

definition scan_pdf :: jsfile where
  "scan_pdf = \<lparr>name = ''scan'', type = ''application/pdf'', content = ''%PDF-1.4''\<rparr>"

definition notes_txt :: jsfile where
  "notes_txt = \<lparr>name = ''notes.txt'', type = ''text/plain'', content = ''hello''\<rparr>"

definition selected_state :: app_state where
  "selected_state = init_state\<lparr>file := Some report_pdf\<rparr>"

definition converted_state :: app_state where
  "converted_state = init_state\<lparr>file := Some report_pdf, result := Some ''# Report''\<rparr>"

text \<open>
  A service that answers the calls of one run from a script, in order, and a reader that
  loads the data URL of the example file.
\<close>

definition scripted :: "string option awaited list \<Rightarrow> (string option awaited list) env" where
  "scripted rs =
     \<lparr>newGoogleGenAI = None,
      readAsDataURL = (\<lambda>f. LoadEnd (Some ''data:application/pdf;base64,JVBERi0xLjQ='')),
      generateContent = (\<lambda>w q. case w of [] \<Rightarrow> (Pending, []) | r # rest \<Rightarrow> (r, rest)),
      world = rs\<rparr>"

definition example_part :: part where
  "example_part = InlineData (Some ''JVBERi0xLjQ='') ''application/pdf''"

text \<open>The same, with a reader whose \<open>readAsDataURL\<close> throws.\<close>

definition unreadable :: "(string option awaited list) env" where
  "unreadable =
     (scripted [])\<lparr>readAsDataURL := (\<lambda>f. ReadThrows (Error ''The file could not be read.''))\<rparr>"

text \<open>The same, with a read that fails: \<open>loadend\<close> fires with \<open>reader.result = null\<close>.\<close>

definition read_error :: "(string option awaited list) env" where
  "read_error = (scripted [])\<lparr>readAsDataURL := (\<lambda>f. LoadEnd None)\<rparr>"

section \<open>The shapes of a run\<close>

text \<open>
  The three calls as they appear in a trace, for an attachment, the text of the stage
  before, and what the call gave.
\<close>

definition call1 :: "part \<Rightarrow> string option awaited \<Rightarrow> event" where
  "call1 fp r = ModelCall \<lparr>model = ''gemini-2.5-flash'', parts = [Text promptStep1, fp]\<rparr> r"

definition call2 :: "part \<Rightarrow> string \<Rightarrow> string option awaited \<Rightarrow> event" where
  "call2 fp t1 r =
     ModelCall \<lparr>model = ''gemini-2.5-flash'',
                parts = [Text promptStep2, fp,
                         Text (''\<newline>\<newline>--- OCR-GENERATED MARKDOWN TO BE VERIFIED ---\<newline>\<newline>'' @ t1)]\<rparr> r"

definition call3 :: "part \<Rightarrow> string \<Rightarrow> string option awaited \<Rightarrow> event" where
  "call3 fp t2 r =
     ModelCall \<lparr>model = ''gemini-2.5-flash'',
                parts = [Text promptStep3, fp,
                         Text (''\<newline>\<newline>--- CORRECTED MARKDOWN FOR FINAL POLISH ---\<newline>\<newline>'' @ t2)]\<rparr> r"

text \<open>The state while a run waits with a progress message, and after a failure.\<close>

definition waiting :: "app_state \<Rightarrow> string \<Rightarrow> app_state" where
  "waiting s m = s\<lparr>isLoading := True, error := None, result := None, loadingMessage := m\<rparr>"

definition failed :: "app_state \<Rightarrow> js_error \<Rightarrow> app_state" where
  "failed s e =
     s\<lparr>isLoading := False, loadingMessage := [],
       error := Some (''Error processing file: '' @ message e), result := None\<rparr>"

definition succeeded :: "app_state \<Rightarrow> string \<Rightarrow> app_state" where
  "succeeded s t =
     s\<lparr>isLoading := False, loadingMessage := [], error := None, result := Some t\<rparr>"

section \<open>Case analysis of a run\<close>

text \<open>
  Each stage ends in one of four ways, and so a run with a file selected takes one of
  thirteen shapes. The properties below are read off these shapes.
\<close>


lemma falsy_cases:
  obtains (absent) "falsy t" | (nonempty) x where "t = Some x" and "x \<noteq> []" and "\<not> falsy t"
  by (cases t) (auto simp: falsy_def)

lemma step3_cases:
  obtains
    (pending) "step3 env fp w t2 (s, tr) =
                 (s\<lparr>loadingMessage := ''Step 3 of 3: Applying final polish...''\<rparr>,
                  tr @ [call3 fp t2 Pending], Suspended)"
  | (rejected) e where "step3 env fp w t2 (s, tr) =
                 (s\<lparr>loadingMessage := ''Step 3 of 3: Applying final polish...''\<rparr>,
                  tr @ [call3 fp t2 (Rejected e)], Thrown e)"
  | (empty) t where "falsy t" and "step3 env fp w t2 (s, tr) =
                 (s\<lparr>loadingMessage := ''Step 3 of 3: Applying final polish...''\<rparr>,
                  tr @ [call3 fp t2 (Fulfilled t)],
                  Thrown (Error ''Step 3 (Final Polish) failed or returned empty.''))"
  | (ok) t3 where "t3 \<noteq> []" and "step3 env fp w t2 (s, tr) =
                 (s\<lparr>loadingMessage := ''Step 3 of 3: Applying final polish...'', result := Some t3\<rparr>,
                  tr @ [call3 fp t2 (Fulfilled (Some t3))], Normal)"
proof -
  obtain r w' where g: "generateContent env w
      \<lparr>model = ''gemini-2.5-flash'',
       parts = [Text promptStep3, fp,
                Text (''\<newline>\<newline>--- CORRECTED MARKDOWN FOR FINAL POLISH ---\<newline>\<newline>'' @ t2)]\<rparr> = (r, w')"
    by (rule prod.exhaust)
  show thesis
  proof (cases r)
    case Pending
    show thesis by (rule pending) (use g in \<open>simp add: step3_def call3_def Pending\<close>)
  next
    case (Rejected e)
    show thesis by (rule rejected[of e]) (use g in \<open>simp add: step3_def call3_def Rejected\<close>)
  next
    case (Fulfilled t)
    show thesis
    proof (cases t rule: falsy_cases)
      case absent
      show thesis by (rule empty[of t]) (use g in \<open>simp_all add: step3_def call3_def Fulfilled absent\<close>)
    next
      case (nonempty x)
      show thesis by (rule ok[of x]) (use g in \<open>simp_all add: step3_def call3_def Fulfilled nonempty Let_def falsy_def\<close>)
    qed
  qed
qed

lemma step2_cases:
  obtains
    (pending) "step2 env fp w t1 (s, tr) =
                 (s\<lparr>loadingMessage := ''Step 2 of 3: Verifying and correcting the document...''\<rparr>,
                  tr @ [call2 fp t1 Pending], Suspended)"
  | (rejected) e where "step2 env fp w t1 (s, tr) =
                 (s\<lparr>loadingMessage := ''Step 2 of 3: Verifying and correcting the document...''\<rparr>,
                  tr @ [call2 fp t1 (Rejected e)], Thrown e)"
  | (empty) t where "falsy t" and "step2 env fp w t1 (s, tr) =
                 (s\<lparr>loadingMessage := ''Step 2 of 3: Verifying and correcting the document...''\<rparr>,
                  tr @ [call2 fp t1 (Fulfilled t)],
                  Thrown (Error ''Step 2 (Verification) failed or returned empty.''))"
  | (ok) t2 w2 where "t2 \<noteq> []" and "step2 env fp w t1 (s, tr) =
                 step3 env fp w2 t2
                   (s\<lparr>loadingMessage := ''Step 2 of 3: Verifying and correcting the document...''\<rparr>,
                    tr @ [call2 fp t1 (Fulfilled (Some t2))])"
proof -
  obtain r w' where g: "generateContent env w
      \<lparr>model = ''gemini-2.5-flash'',
       parts = [Text promptStep2, fp,
                Text (''\<newline>\<newline>--- OCR-GENERATED MARKDOWN TO BE VERIFIED ---\<newline>\<newline>'' @ t1)]\<rparr> = (r, w')"
    by (rule prod.exhaust)
  show thesis
  proof (cases r)
    case Pending
    show thesis by (rule pending) (use g in \<open>simp add: step2_def call2_def Pending\<close>)
  next
    case (Rejected e)
    show thesis by (rule rejected[of e]) (use g in \<open>simp add: step2_def call2_def Rejected\<close>)
  next
    case (Fulfilled t)
    show thesis
    proof (cases t rule: falsy_cases)
      case absent
      show thesis by (rule empty[of t]) (use g in \<open>simp_all add: step2_def call2_def Fulfilled absent\<close>)
    next
      case (nonempty x)
      show thesis by (rule ok[of x w']) (use g in \<open>simp_all add: step2_def call2_def Fulfilled nonempty Let_def falsy_def\<close>)
    qed
  qed
qed

lemma step1_cases:
  obtains
    (pending) "step1 env fp (s, tr) =
                 (s\<lparr>loadingMessage := ''Step 1 of 3: Performing initial conversion...''\<rparr>,
                  tr @ [call1 fp Pending], Suspended)"
  | (rejected) e where "step1 env fp (s, tr) =
                 (s\<lparr>loadingMessage := ''Step 1 of 3: Performing initial conversion...''\<rparr>,
                  tr @ [call1 fp (Rejected e)], Thrown e)"
  | (empty) t where "falsy t" and "step1 env fp (s, tr) =
                 (s\<lparr>loadingMessage := ''Step 1 of 3: Performing initial conversion...''\<rparr>,
                  tr @ [call1 fp (Fulfilled t)],
                  Thrown (Error ''Step 1 (Initial Conversion) failed or returned empty.''))"
  | (ok) t1 w1 where "t1 \<noteq> []" and "step1 env fp (s, tr) =
                 step2 env fp w1 t1
                   (s\<lparr>loadingMessage := ''Step 1 of 3: Performing initial conversion...''\<rparr>,
                    tr @ [call1 fp (Fulfilled (Some t1))])"
proof -
  obtain r w' where g: "generateContent env (world env)
      \<lparr>model = ''gemini-2.5-flash'', parts = [Text promptStep1, fp]\<rparr> = (r, w')"
    by (rule prod.exhaust)
  show thesis
  proof (cases r)
    case Pending
    show thesis by (rule pending) (use g in \<open>simp add: step1_def call1_def Pending\<close>)
  next
    case (Rejected e)
    show thesis by (rule rejected[of e]) (use g in \<open>simp add: step1_def call1_def Rejected\<close>)
  next
    case (Fulfilled t)
    show thesis
    proof (cases t rule: falsy_cases)
      case absent
      show thesis by (rule empty[of t]) (use g in \<open>simp_all add: step1_def call1_def Fulfilled absent\<close>)
    next
      case (nonempty x)
      show thesis by (rule ok[of x w']) (use g in \<open>simp_all add: step1_def call1_def Fulfilled nonempty Let_def falsy_def\<close>)
    qed
  qed
qed


lemma handleConvert_cases [consumes 1, case_names client read_pending read_rejected
    s1_pending s1_rejected s1_empty s2_pending s2_rejected s2_empty
    s3_pending s3_rejected s3_empty finished]:
  assumes "file s = Some f"
  obtains
    e where "newGoogleGenAI env = Some e"
      and "handleConvert env s = \<lparr>final = failed s e, trace = [], caught = Some e, completed = True\<rparr>"
  | "newGoogleGenAI env = None" and "fileToGenerativePart (readAsDataURL env) f = Pending"
      and "handleConvert env s =
             \<lparr>final = s\<lparr>isLoading := True, error := None, result := None\<rparr>,
              trace = [FileRead f], caught = None, completed = False\<rparr>"
  | e where "newGoogleGenAI env = None" and "fileToGenerativePart (readAsDataURL env) f = Rejected e"
      and "handleConvert env s =
             \<lparr>final = failed s e, trace = [FileRead f], caught = Some e, completed = True\<rparr>"
  | fp where "newGoogleGenAI env = None" and "fileToGenerativePart (readAsDataURL env) f = Fulfilled fp"
      and "handleConvert env s =
             \<lparr>final = waiting s ''Step 1 of 3: Performing initial conversion...'',
              trace = [FileRead f, call1 fp Pending], caught = None, completed = False\<rparr>"
  | fp e where "newGoogleGenAI env = None" and "fileToGenerativePart (readAsDataURL env) f = Fulfilled fp"
      and "handleConvert env s =
             \<lparr>final = failed s e, trace = [FileRead f, call1 fp (Rejected e)],
              caught = Some e, completed = True\<rparr>"
  | fp t where "newGoogleGenAI env = None" and "fileToGenerativePart (readAsDataURL env) f = Fulfilled fp"
      and "falsy t"
      and "handleConvert env s =
             \<lparr>final = failed s (Error ''Step 1 (Initial Conversion) failed or returned empty.''),
              trace = [FileRead f, call1 fp (Fulfilled t)],
              caught = Some (Error ''Step 1 (Initial Conversion) failed or returned empty.''),
              completed = True\<rparr>"
  | fp t1 where "newGoogleGenAI env = None" and "fileToGenerativePart (readAsDataURL env) f = Fulfilled fp"
      and "t1 \<noteq> []"
      and "handleConvert env s =
             \<lparr>final = waiting s ''Step 2 of 3: Verifying and correcting the document...'',
              trace = [FileRead f, call1 fp (Fulfilled (Some t1)), call2 fp t1 Pending],
              caught = None, completed = False\<rparr>"
  | fp t1 e where "newGoogleGenAI env = None" and "fileToGenerativePart (readAsDataURL env) f = Fulfilled fp"
      and "t1 \<noteq> []"
      and "handleConvert env s =
             \<lparr>final = failed s e,
              trace = [FileRead f, call1 fp (Fulfilled (Some t1)), call2 fp t1 (Rejected e)],
              caught = Some e, completed = True\<rparr>"
  | fp t1 t where "newGoogleGenAI env = None" and "fileToGenerativePart (readAsDataURL env) f = Fulfilled fp"
      and "t1 \<noteq> []" and "falsy t"
      and "handleConvert env s =
             \<lparr>final = failed s (Error ''Step 2 (Verification) failed or returned empty.''),
              trace = [FileRead f, call1 fp (Fulfilled (Some t1)), call2 fp t1 (Fulfilled t)],
              caught = Some (Error ''Step 2 (Verification) failed or returned empty.''),
              completed = True\<rparr>"
  | fp t1 t2 where "newGoogleGenAI env = None" and "fileToGenerativePart (readAsDataURL env) f = Fulfilled fp"
      and "t1 \<noteq> []" and "t2 \<noteq> []"
      and "handleConvert env s =
             \<lparr>final = waiting s ''Step 3 of 3: Applying final polish...'',
              trace = [FileRead f, call1 fp (Fulfilled (Some t1)), call2 fp t1 (Fulfilled (Some t2)),
                       call3 fp t2 Pending],
              caught = None, completed = False\<rparr>"
  | fp t1 t2 e where "newGoogleGenAI env = None" and "fileToGenerativePart (readAsDataURL env) f = Fulfilled fp"
      and "t1 \<noteq> []" and "t2 \<noteq> []"
      and "handleConvert env s =
             \<lparr>final = failed s e,
              trace = [FileRead f, call1 fp (Fulfilled (Some t1)), call2 fp t1 (Fulfilled (Some t2)),
                       call3 fp t2 (Rejected e)],
              caught = Some e, completed = True\<rparr>"
  | fp t1 t2 t where "newGoogleGenAI env = None" and "fileToGenerativePart (readAsDataURL env) f = Fulfilled fp"
      and "t1 \<noteq> []" and "t2 \<noteq> []" and "falsy t"
      and "handleConvert env s =
             \<lparr>final = failed s (Error ''Step 3 (Final Polish) failed or returned empty.''),
              trace = [FileRead f, call1 fp (Fulfilled (Some t1)), call2 fp t1 (Fulfilled (Some t2)),
                       call3 fp t2 (Fulfilled t)],
              caught = Some (Error ''Step 3 (Final Polish) failed or returned empty.''),
              completed = True\<rparr>"
  | fp t1 t2 t3 where "newGoogleGenAI env = None" and "fileToGenerativePart (readAsDataURL env) f = Fulfilled fp"
      and "t1 \<noteq> []" and "t2 \<noteq> []" and "t3 \<noteq> []"
      and "handleConvert env s =
             \<lparr>final = succeeded s t3,
              trace = [FileRead f, call1 fp (Fulfilled (Some t1)), call2 fp t1 (Fulfilled (Some t2)),
                       call3 fp t2 (Fulfilled (Some t3))],
              caught = None, completed = True\<rparr>"
proof (cases "newGoogleGenAI env")
  case (Some e)
  show thesis
    by (rule that(1)[of e]) (simp_all add: Some assms handleConvert_def tryBody_def failed_def)
next
  case None
  note hc = handleConvert_def tryBody_def failed_def waiting_def succeeded_def
  show thesis
  proof (cases "fileToGenerativePart (readAsDataURL env) f")
    case Pending
    show thesis by (rule that(2)) (simp_all add: None Pending assms hc)
  next
    case (Rejected e)
    show thesis by (rule that(3)[of e]) (simp_all add: None Rejected assms hc)
  next
    case (Fulfilled fp)
    note pre = None Fulfilled assms
    show thesis
    proof (cases rule: step1_cases[of env fp "s\<lparr>isLoading := True, error := None, result := None\<rparr>" "[FileRead f]"])
      case pending
      show thesis by (rule that(4)[of fp]) (use pre pending in \<open>simp_all add: hc\<close>)
    next
      case (rejected e)
      show thesis by (rule that(5)[of fp e]) (use pre rejected in \<open>simp_all add: hc\<close>)
    next
      case (empty t)
      show thesis by (rule that(6)[of fp t]) (use pre empty in \<open>simp_all add: hc\<close>)
    next
      case (ok t1 w1)
      note st1 = ok
      show thesis
      proof (cases rule: step2_cases[of env fp w1 t1
            "s\<lparr>isLoading := True, error := None, result := None,
                loadingMessage := ''Step 1 of 3: Performing initial conversion...''\<rparr>"
            "[FileRead f] @ [call1 fp (Fulfilled (Some t1))]"])
        case pending
        show thesis by (rule that(7)[of fp t1]) (use pre st1 pending in \<open>simp_all add: hc\<close>)
      next
        case (rejected e)
        show thesis by (rule that(8)[of fp t1 e]) (use pre st1 rejected in \<open>simp_all add: hc\<close>)
      next
        case (empty t)
        show thesis by (rule that(9)[of fp t1 t]) (use pre st1 empty in \<open>simp_all add: hc\<close>)
      next
        case (ok t2 w2)
        note st2 = ok
        show thesis
        proof (cases rule: step3_cases[of env fp w2 t2
              "s\<lparr>isLoading := True, error := None, result := None,
                  loadingMessage := ''Step 2 of 3: Verifying and correcting the document...''\<rparr>"
              "([FileRead f] @ [call1 fp (Fulfilled (Some t1))]) @ [call2 fp t1 (Fulfilled (Some t2))]"])
          case pending
          show thesis by (rule that(10)[of fp t1 t2]) (use pre st1 st2 pending in \<open>simp_all add: hc\<close>)
        next
          case (rejected e)
          show thesis by (rule that(11)[of fp t1 t2 e]) (use pre st1 st2 rejected in \<open>simp_all add: hc\<close>)
        next
          case (empty t)
          show thesis by (rule that(12)[of fp t1 t2 t]) (use pre st1 st2 empty in \<open>simp_all add: hc\<close>)
        next
          case (ok t3)
          show thesis by (rule that(13)[of fp t1 t2 t3]) (use pre st1 st2 ok in \<open>simp_all add: hc\<close>)
        qed
      qed
    qed
  qed
qed

section \<open>Replacing the first occurrence\<close>

lemma replace_first_absent: "\<not> sublist pat s \<Longrightarrow> replace_first pat rep s = s"
proof (induction s)
  case Nil
  then show ?case by auto
next
  case (Cons c cs)
  from Cons.prems have np: "\<not> prefix pat (c # cs)" and ns: "\<not> sublist pat cs"
    by (simp_all add: sublist_Cons_right)
  from np have "take (length pat) (c # cs) \<noteq> pat"
    by (metis take_is_prefix)
  with Cons.IH[OF ns] show ?case by simp
qed

lemma replace_first_skip:
  "take (length pat) (c # cs) \<noteq> pat \<Longrightarrow> replace_first pat rep (c # cs) = c # replace_first pat rep cs"
  by simp

lemma pdf_no_overlap:
  assumes "take (length ''.pdf'') (c # cs @ ''.pdf'') = ''.pdf''"
  shows "prefix ''.pdf'' (c # cs)"
proof (cases cs)
  case Nil
  with assms show ?thesis by simp
next
  case (Cons a as)
  note c1 = Cons
  show ?thesis
  proof (cases as)
    case Nil
    with assms c1 show ?thesis by simp
  next
    case (Cons b bs)
    note c2 = Cons
    show ?thesis
    proof (cases bs)
      case Nil
      with assms c1 c2 show ?thesis by simp
    next
      case (Cons d ds)
      with assms c1 c2 show ?thesis by simp
    qed
  qed
qed

lemma replace_first_trailing:
  "\<not> sublist ''.pdf'' stem \<Longrightarrow> replace_first ''.pdf'' rep (stem @ ''.pdf'') = stem @ rep"
proof (induction stem)
  case Nil
  then show ?case by simp
next
  case (Cons c cs)
  from Cons.prems have np: "\<not> prefix ''.pdf'' (c # cs)" and ns: "\<not> sublist ''.pdf'' cs"
    by (simp_all add: sublist_Cons_right)
  from np pdf_no_overlap[of c cs] have "take (length ''.pdf'') (c # cs @ ''.pdf'') \<noteq> ''.pdf''"
    by blast
  then have "replace_first ''.pdf'' rep (c # cs @ ''.pdf'') = c # replace_first ''.pdf'' rep (cs @ ''.pdf'')"
    by (rule replace_first_skip)
  with Cons.IH[OF ns] show ?case by (simp del: replace_first.simps)
qed

section \<open>Example runs\<close>


lemmas run_defs = handleConvert_def tryBody_def step1_def step2_def step3_def Let_def
lemmas ex_defs = scripted_def selected_state_def init_state_def report_pdf_def
  fileToGenerativePart_def split_comma_1_def falsy_def example_part_def
lemmas shape_defs = call1_def call2_def call3_def failed_def waiting_def succeeded_def

lemma example_encoding:
  "fileToGenerativePart (readAsDataURL (scripted rs)) report_pdf = Fulfilled example_part"
  by (simp add: ex_defs)

lemma run_all_stages:
  "handleConvert (scripted [Fulfilled (Some ''# A''), Fulfilled (Some ''# B''), Fulfilled (Some ''# C'')])
     selected_state =
   \<lparr>final = succeeded selected_state ''# C'',
    trace = [FileRead report_pdf, call1 example_part (Fulfilled (Some ''# A'')),
             call2 example_part ''# A'' (Fulfilled (Some ''# B'')),
             call3 example_part ''# B'' (Fulfilled (Some ''# C''))],
    caught = None, completed = True\<rparr>"
  by (simp add: run_defs ex_defs shape_defs)

lemma run_stage1_absent:
  "handleConvert (scripted [Fulfilled None]) selected_state =
   \<lparr>final = failed selected_state (Error ''Step 1 (Initial Conversion) failed or returned empty.''),
    trace = [FileRead report_pdf, call1 example_part (Fulfilled None)],
    caught = Some (Error ''Step 1 (Initial Conversion) failed or returned empty.''), completed = True\<rparr>"
  by (simp add: run_defs ex_defs shape_defs)

lemma run_stage2_empty:
  "handleConvert (scripted [Fulfilled (Some ''# A''), Fulfilled (Some [])]) selected_state =
   \<lparr>final = failed selected_state (Error ''Step 2 (Verification) failed or returned empty.''),
    trace = [FileRead report_pdf, call1 example_part (Fulfilled (Some ''# A'')),
             call2 example_part ''# A'' (Fulfilled (Some []))],
    caught = Some (Error ''Step 2 (Verification) failed or returned empty.''), completed = True\<rparr>"
  by (simp add: run_defs ex_defs shape_defs)

lemma run_stage3_rejected:
  "handleConvert (scripted [Fulfilled (Some ''# A''), Fulfilled (Some ''# B''), Rejected (Error ''quota exceeded'')])
     selected_state =
   \<lparr>final = failed selected_state (Error ''quota exceeded''),
    trace = [FileRead report_pdf, call1 example_part (Fulfilled (Some ''# A'')),
             call2 example_part ''# A'' (Fulfilled (Some ''# B'')),
             call3 example_part ''# B'' (Rejected (Error ''quota exceeded''))],
    caught = Some (Error ''quota exceeded''), completed = True\<rparr>"
  by (simp add: run_defs ex_defs shape_defs)

lemma run_unreadable:
  "handleConvert unreadable selected_state =
   \<lparr>final = failed selected_state (Error ''The file could not be read.''),
    trace = [FileRead report_pdf],
    caught = Some (Error ''The file could not be read.''), completed = True\<rparr>"
  by (simp add: run_defs ex_defs shape_defs unreadable_def)

lemma attachment_is_inline:
  "fileToGenerativePart reader f = Fulfilled fp \<Longrightarrow> \<exists>d. fp = InlineData d (type f)"
  by (auto simp: fileToGenerativePart_def split: reader_outcome.splits option.splits)

section \<open>Properties of the conversion and of file intake\<close>


text \<open>
  C1. When all three stages return non-empty text, the stored result is exactly the text
  of stage 3.
\<close>

theorem final_result_is_stage3_text:
  assumes "r = handleConvert env s"
      and "responses (trace r) = [Fulfilled (Some t1), Fulfilled (Some t2), Fulfilled (Some t3)]"
      and "t1 \<noteq> []" and "t2 \<noteq> []" and "t3 \<noteq> []"
  shows "result (final r) = Some t3 \<and> error (final r) = None \<and> completed r"
proof (cases "file s")
  case None
  with assms show ?thesis by (simp add: handleConvert_def)
next
  case (Some f)
  then show ?thesis
    by (cases rule: handleConvert_cases[where env = env])
       (use assms in \<open>auto simp: shape_defs falsy_def\<close>)
qed

theorem final_result_is_stage3_text_witness:
  "responses (trace (handleConvert
       (scripted [Fulfilled (Some ''# A''), Fulfilled (Some ''# B''), Fulfilled (Some ''# C'')])
       selected_state)) =
     [Fulfilled (Some ''# A''), Fulfilled (Some ''# B''), Fulfilled (Some ''# C'')]
   \<and> ''# A'' \<noteq> [] \<and> ''# B'' \<noteq> [] \<and> ''# C'' \<noteq> []
   \<and> result (final (handleConvert
       (scripted [Fulfilled (Some ''# A''), Fulfilled (Some ''# B''), Fulfilled (Some ''# C'')])
       selected_state)) = Some ''# C''"
proof -
  have h: "responses (trace (handleConvert
       (scripted [Fulfilled (Some ''# A''), Fulfilled (Some ''# B''), Fulfilled (Some ''# C'')])
       selected_state)) =
     [Fulfilled (Some ''# A''), Fulfilled (Some ''# B''), Fulfilled (Some ''# C'')]"
    by (simp add: run_all_stages shape_defs)
  from final_result_is_stage3_text[OF refl h] h show ?thesis by simp
qed

text \<open>
  C2. When a stage returns empty or absent text, it is the last call of the run: the run
  ends with an error message that names the step, nothing is stored as result, and the
  later stages are not called.
\<close>

theorem empty_stage_aborts_run:
  assumes "r = handleConvert env s"
      and "k < length (responses (trace r))"
      and "responses (trace r) ! k = Fulfilled t"
      and "falsy t"
  shows "length (responses (trace r)) = Suc k
       \<and> length (requests (trace r)) = Suc k
       \<and> completed r
       \<and> result (final r) = None
       \<and> \<not> isLoading (final r)
       \<and> (k = 0 \<and> (\<exists>rest. error (final r) = Some (''Error processing file: Step 1'' @ rest))
          \<or> k = 1 \<and> (\<exists>rest. error (final r) = Some (''Error processing file: Step 2'' @ rest))
          \<or> k = 2 \<and> (\<exists>rest. error (final r) = Some (''Error processing file: Step 3'' @ rest)))"
proof (cases "file s")
  case None
  with assms show ?thesis by (simp add: handleConvert_def)
next
  case (Some f)
  then show ?thesis
    by (cases rule: handleConvert_cases[where env = env])
       (use assms in \<open>auto simp: shape_defs falsy_def nth_Cons' split: if_splits\<close>)
qed

theorem empty_stage_aborts_run_witness:
  "1 < length (responses (trace (handleConvert
        (scripted [Fulfilled (Some ''# A''), Fulfilled (Some [])]) selected_state)))
   \<and> responses (trace (handleConvert
        (scripted [Fulfilled (Some ''# A''), Fulfilled (Some [])]) selected_state)) ! 1 = Fulfilled (Some [])
   \<and> falsy (Some [])
   \<and> length (requests (trace (handleConvert
        (scripted [Fulfilled (Some ''# A''), Fulfilled (Some [])]) selected_state))) = 2
   \<and> result (final (handleConvert
        (scripted [Fulfilled (Some ''# A''), Fulfilled (Some [])]) selected_state)) = None"
proof -
  let ?r = "handleConvert (scripted [Fulfilled (Some ''# A''), Fulfilled (Some [])]) selected_state"
  have h1: "1 < length (responses (trace ?r))" by (simp add: run_stage2_empty shape_defs)
  have h2: "responses (trace ?r) ! 1 = Fulfilled (Some [])" by (simp add: run_stage2_empty shape_defs)
  have h3: "falsy (Some [])" by (simp add: falsy_def)
  from empty_stage_aborts_run[OF refl h1 h2 h3] h1 h2 h3 show ?thesis by simp
qed



text \<open>
  C3. As stated, the messages of the three stages would be "Step 1 failed or returned
  empty." and so on. The code names the stage in brackets: at a run whose first stage
  returns no text, neither the error thrown nor the message shown is the stated one.
\<close>

theorem stage1_message_counterexample:
  "responses (trace (handleConvert (scripted [Fulfilled None]) selected_state)) = [Fulfilled None]
   \<and> falsy None
   \<and> caught (handleConvert (scripted [Fulfilled None]) selected_state)
       \<noteq> Some (Error ''Step 1 failed or returned empty.'')
   \<and> error (final (handleConvert (scripted [Fulfilled None]) selected_state))
       \<noteq> Some ''Step 1 failed or returned empty.''"
  by (simp add: run_stage1_absent shape_defs falsy_def)

text \<open>
  C3, amended. When stage 1, 2 or 3 returns empty or absent text, the error thrown has
  exactly the message "Step 1 (Initial Conversion) failed or returned empty.",
  "Step 2 (Verification) failed or returned empty." or
  "Step 3 (Final Polish) failed or returned empty.", and the message shown is that text
  after "Error processing file: ".
\<close>

theorem empty_stage_message:
  assumes "r = handleConvert env s"
      and "k < length (responses (trace r))"
      and "responses (trace r) ! k = Fulfilled t"
      and "falsy t"
  shows "(k = 0 \<and> caught r = Some (Error ''Step 1 (Initial Conversion) failed or returned empty.'')
            \<and> error (final r) =
                Some ''Error processing file: Step 1 (Initial Conversion) failed or returned empty.'')
       \<or> (k = 1 \<and> caught r = Some (Error ''Step 2 (Verification) failed or returned empty.'')
            \<and> error (final r) =
                Some ''Error processing file: Step 2 (Verification) failed or returned empty.'')
       \<or> (k = 2 \<and> caught r = Some (Error ''Step 3 (Final Polish) failed or returned empty.'')
            \<and> error (final r) =
                Some ''Error processing file: Step 3 (Final Polish) failed or returned empty.'')"
proof (cases "file s")
  case None
  with assms show ?thesis by (simp add: handleConvert_def)
next
  case (Some f)
  then show ?thesis
    by (cases rule: handleConvert_cases[where env = env])
       (use assms in \<open>auto simp: shape_defs falsy_def nth_Cons' split: if_splits\<close>)
qed

theorem empty_stage_message_witness:
  "0 < length (responses (trace (handleConvert (scripted [Fulfilled None]) selected_state)))
   \<and> responses (trace (handleConvert (scripted [Fulfilled None]) selected_state)) ! 0 = Fulfilled None
   \<and> falsy None
   \<and> caught (handleConvert (scripted [Fulfilled None]) selected_state) =
       Some (Error ''Step 1 (Initial Conversion) failed or returned empty.'')
   \<and> error (final (handleConvert (scripted [Fulfilled None]) selected_state)) =
       Some ''Error processing file: Step 1 (Initial Conversion) failed or returned empty.''"
proof -
  let ?r = "handleConvert (scripted [Fulfilled None]) selected_state"
  have h1: "0 < length (responses (trace ?r))" by (simp add: run_stage1_absent shape_defs)
  have h2: "responses (trace ?r) ! 0 = Fulfilled None" by (simp add: run_stage1_absent shape_defs)
  have h3: "falsy None" by (simp add: falsy_def)
  from empty_stage_message[OF refl h1 h2 h3] h1 h2 h3 show ?thesis by simp
qed

text \<open>
  C4. The request of stage 1 holds the first prompt and the attachment only; the request
  of stage 2 ends with the text of stage 1 under the heading for OCR-generated markdown
  to be verified; the request of stage 3 ends with the text of stage 2 under the heading
  for corrected markdown for final polish.
\<close>

theorem stage_payloads:
  assumes "r = handleConvert env s"
      and "qs = requests (trace r)" and "rs = responses (trace r)"
  shows "(0 < length qs \<longrightarrow>
            (\<exists>d m. parts (qs ! 0) = [Text promptStep1, InlineData d m]))
       \<and> (1 < length qs \<longrightarrow>
            (\<exists>d m t1. rs ! 0 = Fulfilled (Some t1) \<and>
               parts (qs ! 1) =
                 [Text promptStep2, InlineData d m,
                  Text (''\<newline>\<newline>--- OCR-GENERATED MARKDOWN TO BE VERIFIED ---\<newline>\<newline>'' @ t1)]))
       \<and> (2 < length qs \<longrightarrow>
            (\<exists>d m t2. rs ! 1 = Fulfilled (Some t2) \<and>
               parts (qs ! 2) =
                 [Text promptStep3, InlineData d m,
                  Text (''\<newline>\<newline>--- CORRECTED MARKDOWN FOR FINAL POLISH ---\<newline>\<newline>'' @ t2)]))"
proof (cases "file s")
  case None
  with assms show ?thesis by (simp add: handleConvert_def)
next
  case (Some f)
  then show ?thesis
    by (cases rule: handleConvert_cases[where env = env])
       (use assms in \<open>auto simp: shape_defs dest!: attachment_is_inline\<close>)
qed

theorem stage_payloads_witness:
  "2 < length (requests (trace (handleConvert
       (scripted [Fulfilled (Some ''# A''), Fulfilled (Some ''# B''), Fulfilled (Some ''# C'')])
       selected_state)))
   \<and> (\<exists>d m. parts (requests (trace (handleConvert
       (scripted [Fulfilled (Some ''# A''), Fulfilled (Some ''# B''), Fulfilled (Some ''# C'')])
       selected_state)) ! 0) = [Text promptStep1, InlineData d m])
   \<and> (\<exists>d m. parts (requests (trace (handleConvert
       (scripted [Fulfilled (Some ''# A''), Fulfilled (Some ''# B''), Fulfilled (Some ''# C'')])
       selected_state)) ! 1) =
         [Text promptStep2, InlineData d m,
          Text ''\<newline>\<newline>--- OCR-GENERATED MARKDOWN TO BE VERIFIED ---\<newline>\<newline># A''])
   \<and> (\<exists>d m. parts (requests (trace (handleConvert
       (scripted [Fulfilled (Some ''# A''), Fulfilled (Some ''# B''), Fulfilled (Some ''# C'')])
       selected_state)) ! 2) =
         [Text promptStep3, InlineData d m,
          Text ''\<newline>\<newline>--- CORRECTED MARKDOWN FOR FINAL POLISH ---\<newline>\<newline># B''])"
proof -
  let ?r = "handleConvert
       (scripted [Fulfilled (Some ''# A''), Fulfilled (Some ''# B''), Fulfilled (Some ''# C'')])
       selected_state"
  have h: "2 < length (requests (trace ?r))" by (simp add: run_all_stages shape_defs)
  have r0: "responses (trace ?r) ! 0 = Fulfilled (Some ''# A'')"
    and r1: "responses (trace ?r) ! 1 = Fulfilled (Some ''# B'')"
    by (simp_all add: run_all_stages shape_defs)
  from stage_payloads[OF refl refl refl, where s = selected_state and env =
      "scripted [Fulfilled (Some ''# A''), Fulfilled (Some ''# B''), Fulfilled (Some ''# C'')]"]
    h r0 r1 show ?thesis
    by (simp add: run_all_stages shape_defs)
qed



text \<open>
  C5. The file is read at most once in a run. Whenever a stage is called, the file was
  read exactly once, before every call, and each request carries the value that the
  encoder gave for the selected file (with the MIME type of the file) and otherwise
  text parts only.
\<close>

theorem attachment_derived_once:
  assumes "r = handleConvert env s"
  shows "length (reads (trace r)) \<le> 1
       \<and> (requests (trace r) \<noteq> [] \<longrightarrow>
            (\<exists>f fp calls.
               file s = Some f
             \<and> fileToGenerativePart (readAsDataURL env) f = Fulfilled fp
             \<and> (\<exists>d. fp = InlineData d (type f))
             \<and> trace r = FileRead f # calls
             \<and> reads calls = []
             \<and> (\<forall>q \<in> set (requests calls).
                   fp \<in> set (parts q) \<and> (\<forall>p \<in> set (parts q). p = fp \<or> (\<exists>t. p = Text t)))))"
proof (cases "file s")
  case None
  with assms show ?thesis by (simp add: handleConvert_def)
next
  case (Some f)
  then show ?thesis
    by (cases rule: handleConvert_cases[where env = env])
       (use assms Some in \<open>auto simp: shape_defs intro: attachment_is_inline\<close>)
qed

theorem attachment_derived_once_witness:
  "requests (trace (handleConvert
       (scripted [Fulfilled (Some ''# A''), Fulfilled (Some ''# B''), Fulfilled (Some ''# C'')])
       selected_state)) \<noteq> []
   \<and> reads (trace (handleConvert
       (scripted [Fulfilled (Some ''# A''), Fulfilled (Some ''# B''), Fulfilled (Some ''# C'')])
       selected_state)) = [report_pdf]
   \<and> example_part \<in> set (parts (requests (trace (handleConvert
       (scripted [Fulfilled (Some ''# A''), Fulfilled (Some ''# B''), Fulfilled (Some ''# C'')])
       selected_state)) ! 0))
   \<and> example_part \<in> set (parts (requests (trace (handleConvert
       (scripted [Fulfilled (Some ''# A''), Fulfilled (Some ''# B''), Fulfilled (Some ''# C'')])
       selected_state)) ! 1))
   \<and> example_part \<in> set (parts (requests (trace (handleConvert
       (scripted [Fulfilled (Some ''# A''), Fulfilled (Some ''# B''), Fulfilled (Some ''# C'')])
       selected_state)) ! 2))"
proof -
  let ?e = "scripted [Fulfilled (Some ''# A''), Fulfilled (Some ''# B''), Fulfilled (Some ''# C'')]"
  let ?r = "handleConvert ?e selected_state"
  have h: "requests (trace ?r) \<noteq> []" by (simp add: run_all_stages shape_defs)
  have len: "length (requests (trace ?r)) = 3" by (simp add: run_all_stages shape_defs)
  have f: "file selected_state = Some report_pdf" by (simp add: selected_state_def init_state_def)
  from attachment_derived_once[OF refl, where env = ?e and s = selected_state] h
  obtain f' fp calls where
        sel: "file selected_state = Some f'"
    and enc: "fileToGenerativePart (readAsDataURL ?e) f' = Fulfilled fp"
    and tr: "trace ?r = FileRead f' # calls"
    and rd: "reads calls = []"
    and same: "\<forall>q \<in> set (requests calls). fp \<in> set (parts q)"
    by blast
  from sel f have f': "f' = report_pdf" by simp
  with enc have fp: "fp = example_part" by (simp add: example_encoding)
  from tr have rq: "requests (trace ?r) = requests calls" by simp
  from rq len have "requests (trace ?r) ! 0 \<in> set (requests calls)"
    and "requests (trace ?r) ! 1 \<in> set (requests calls)"
    and "requests (trace ?r) ! 2 \<in> set (requests calls)"
    by simp_all
  with same fp have "example_part \<in> set (parts (requests (trace ?r) ! 0))"
    and "example_part \<in> set (parts (requests (trace ?r) ! 1))"
    and "example_part \<in> set (parts (requests (trace ?r) ! 2))"
    by blast+
  moreover from tr rd f' have "reads (trace ?r) = [report_pdf]" by simp
  ultimately show ?thesis using h by blast
qed

text \<open>
  The failures that do reach the \<open>catch\<close> of the conversion: a rejection of the
  encoder's promise, a rejected stage call, and a stage whose text is empty or absent.
  Whatever error is caught, the run ends with the message "Error processing file: "
  followed by the message of the error, no longer loading, with no progress message and
  no stored result, the selected file kept.
\<close>

lemma failures_reach_handler:
  assumes "r = handleConvert env s" and "file s = Some f"
  shows "(newGoogleGenAI env = None \<and> fileToGenerativePart (readAsDataURL env) f = Rejected e
            \<longrightarrow> caught r = Some e)
       \<and> (Rejected e \<in> set (responses (trace r)) \<longrightarrow> caught r = Some e)
       \<and> ((\<exists>t. Fulfilled t \<in> set (responses (trace r)) \<and> falsy t) \<longrightarrow> caught r \<noteq> None)
       \<and> (caught r = Some e \<longrightarrow>
            final r = s\<lparr>isLoading := False, loadingMessage := [],
                         error := Some (''Error processing file: '' @ message e), result := None\<rparr>
            \<and> completed r)"
  using assms(2)
  by (cases rule: handleConvert_cases[where env = env])
     (use assms in \<open>auto simp: shape_defs falsy_def\<close>)

lemma failures_reach_handler_example:
  "file selected_state = Some report_pdf
   \<and> newGoogleGenAI unreadable = None
   \<and> fileToGenerativePart (readAsDataURL unreadable) report_pdf =
         Rejected (Error ''The file could not be read.'')
   \<and> final (handleConvert unreadable selected_state) =
         selected_state\<lparr>isLoading := False, loadingMessage := [],
           error := Some ''Error processing file: The file could not be read.'', result := None\<rparr>
   \<and> Rejected (Error ''quota exceeded'') \<in> set (responses (trace (handleConvert
         (scripted [Fulfilled (Some ''# A''), Fulfilled (Some ''# B''), Rejected (Error ''quota exceeded'')])
         selected_state)))
   \<and> final (handleConvert
         (scripted [Fulfilled (Some ''# A''), Fulfilled (Some ''# B''), Rejected (Error ''quota exceeded'')])
         selected_state) =
         selected_state\<lparr>isLoading := False, loadingMessage := [],
           error := Some ''Error processing file: quota exceeded'', result := None\<rparr>
   \<and> Fulfilled (Some []) \<in> set (responses (trace (handleConvert
         (scripted [Fulfilled (Some ''# A''), Fulfilled (Some [])]) selected_state)))
   \<and> falsy (Some [])
   \<and> caught (handleConvert (scripted [Fulfilled (Some ''# A''), Fulfilled (Some [])]) selected_state)
         \<noteq> None"
proof -
  let ?q = "scripted [Fulfilled (Some ''# A''), Fulfilled (Some ''# B''), Rejected (Error ''quota exceeded'')]"
  let ?m = "scripted [Fulfilled (Some ''# A''), Fulfilled (Some [])]"
  have f: "file selected_state = Some report_pdf"
    by (simp add: selected_state_def init_state_def)
  have u1: "newGoogleGenAI unreadable = None"
    by (simp add: unreadable_def scripted_def)
  have u2: "fileToGenerativePart (readAsDataURL unreadable) report_pdf =
              Rejected (Error ''The file could not be read.'')"
    by (simp add: unreadable_def scripted_def fileToGenerativePart_def)
  have q1: "Rejected (Error ''quota exceeded'') \<in> set (responses (trace (handleConvert ?q selected_state)))"
    by (simp add: run_stage3_rejected shape_defs)
  have m1: "Fulfilled (Some []) \<in> set (responses (trace (handleConvert ?m selected_state)))"
    by (simp add: run_stage2_empty shape_defs)
  have m2: "falsy (Some [])" by (simp add: falsy_def)
  note a = failures_reach_handler[OF refl f, where env = unreadable and e = "Error ''The file could not be read.''"]
  note b = failures_reach_handler[OF refl f, where env = ?q and e = "Error ''quota exceeded''"]
  note c = failures_reach_handler[OF refl f, where env = ?m]
  from a u1 u2 have a': "final (handleConvert unreadable selected_state) =
         selected_state\<lparr>isLoading := False, loadingMessage := [],
           error := Some (''Error processing file: '' @ message (Error ''The file could not be read.'')),
           result := None\<rparr>"
    by blast
  from b q1 have b': "final (handleConvert ?q selected_state) =
         selected_state\<lparr>isLoading := False, loadingMessage := [],
           error := Some (''Error processing file: '' @ message (Error ''quota exceeded'')),
           result := None\<rparr>"
    by blast
  from c m1 m2 have c': "caught (handleConvert ?m selected_state) \<noteq> None"
    by blast
  from a' b' c' f u1 u2 q1 m1 m2 show ?thesis by simp
qed

text \<open>
  A read that ends with a \<open>null\<close> result raises nothing to the conversion: the promise of
  the encoder stays pending, and the run stays in the loading state.
\<close>

lemma read_error_never_settles:
  assumes "file s = Some f" and "newGoogleGenAI env = None" and "readAsDataURL env f = LoadEnd None"
  shows "\<not> completed (handleConvert env s) \<and> isLoading (final (handleConvert env s))
       \<and> trace (handleConvert env s) = [FileRead f]"
  using assms by (simp add: handleConvert_def tryBody_def fileToGenerativePart_def)

text \<open>
  C7. Every failure of the encoder would reach the handler, which shows "Error processing
  file: ..." and leaves the run idle. When the read of the selected file fails, the
  encoder's promise is never settled: the conversion stops at the \<open>await\<close> of the
  encoder with nothing caught and no message, still loading, and no stage is called.
\<close>

theorem read_error_leaves_run_loading:
  "file selected_state = Some report_pdf
   \<and> readAsDataURL read_error report_pdf = LoadEnd None
   \<and> fileToGenerativePart (readAsDataURL read_error) report_pdf = Pending
   \<and> handleConvert read_error selected_state =
       \<lparr>final = selected_state\<lparr>isLoading := True, error := None, result := None\<rparr>,
        trace = [FileRead report_pdf], caught = None, completed = False\<rparr>
   \<and> caught (handleConvert read_error selected_state) = None
   \<and> error (final (handleConvert read_error selected_state)) = None
   \<and> isLoading (final (handleConvert read_error selected_state))
   \<and> \<not> completed (handleConvert read_error selected_state)"
  by (simp add: read_error_def scripted_def selected_state_def init_state_def
        handleConvert_def tryBody_def fileToGenerativePart_def)

text \<open>
  C9. With no file selected, the conversion sets the message "Please select a file
  first." and returns: nothing is read, no request is sent, and no other state cell
  changes.
\<close>

theorem convert_without_file:
  assumes "file s = None"
  shows "handleConvert env s =
           \<lparr>final = s\<lparr>error := Some ''Please select a file first.''\<rparr>,
            trace = [], caught = None, completed = True\<rparr>"
  using assms by (simp add: handleConvert_def)

theorem convert_without_file_witness:
  "file init_state = None
   \<and> handleConvert (scripted [Fulfilled (Some ''# A'')]) init_state =
       \<lparr>final = init_state\<lparr>error := Some ''Please select a file first.''\<rparr>,
        trace = [], caught = None, completed = True\<rparr>"
proof -
  have h: "file init_state = None" by (simp add: init_state_def)
  from convert_without_file[OF h] h show ?thesis by simp
qed

text \<open>
  C8. A selected file whose MIME type is not \<open>application/pdf\<close> leaves no file stored
  and sets the message "Please select a valid PDF file."; a file of that type is stored.
\<close>

theorem file_intake_mime_gate:
  "(type f \<noteq> ''application/pdf'' \<longrightarrow>
      file (handleFileChange (Some f) s) = None
    \<and> error (handleFileChange (Some f) s) = Some ''Please select a valid PDF file.'')
   \<and> (type f = ''application/pdf'' \<longrightarrow> file (handleFileChange (Some f) s) = Some f)"
  by (simp add: handleFileChange_def)

theorem file_intake_mime_gate_witness:
  "type notes_txt \<noteq> ''application/pdf''
   \<and> file (handleFileChange (Some notes_txt) selected_state) = None
   \<and> error (handleFileChange (Some notes_txt) selected_state) = Some ''Please select a valid PDF file.''
   \<and> type report_pdf = ''application/pdf''
   \<and> file (handleFileChange (Some report_pdf) init_state) = Some report_pdf"
proof -
  have h1: "type notes_txt \<noteq> ''application/pdf''" by (simp add: notes_txt_def)
  have h2: "type report_pdf = ''application/pdf''" by (simp add: report_pdf_def)
  from file_intake_mime_gate[of notes_txt selected_state] file_intake_mime_gate[of report_pdf init_state]
    h1 h2 show ?thesis by blast
qed

text \<open>
  C10. Accepting a PDF clears the error message and the conversion result and changes
  nothing but the file, the error and the result. Rejecting a file changes nothing but
  the error and the file: a result produced before is still there.
\<close>

theorem file_change_frame:
  "(type f = ''application/pdf'' \<longrightarrow>
      handleFileChange (Some f) s = s\<lparr>file := Some f, error := None, result := None\<rparr>
    \<and> error (handleFileChange (Some f) s) = None
    \<and> result (handleFileChange (Some f) s) = None)
   \<and> (type f \<noteq> ''application/pdf'' \<longrightarrow>
      handleFileChange (Some f) s = s\<lparr>error := Some ''Please select a valid PDF file.'', file := None\<rparr>
    \<and> result (handleFileChange (Some f) s) = result s)"
  by (simp add: handleFileChange_def)

theorem file_change_frame_witness:
  "type report_pdf = ''application/pdf''
   \<and> result (converted_state) = Some ''# Report''
   \<and> result (handleFileChange (Some report_pdf) converted_state) = None
   \<and> error (handleFileChange (Some report_pdf) (converted_state\<lparr>error := Some ''old''\<rparr>)) = None
   \<and> type notes_txt \<noteq> ''application/pdf''
   \<and> result (handleFileChange (Some notes_txt) converted_state) = Some ''# Report''
   \<and> file (handleFileChange (Some notes_txt) converted_state) = None"
proof -
  have h1: "type notes_txt \<noteq> ''application/pdf''" by (simp add: notes_txt_def)
  have h2: "type report_pdf = ''application/pdf''" by (simp add: report_pdf_def)
  have h3: "result converted_state = Some ''# Report''"
    by (simp add: converted_state_def init_state_def)
  from file_change_frame[of report_pdf converted_state]
       file_change_frame[of report_pdf "converted_state\<lparr>error := Some ''old''\<rparr>"]
       file_change_frame[of notes_txt converted_state] h1 h2 h3
  show ?thesis by simp
qed

section \<open>Properties of the download name\<close>


text \<open>
  C6. As stated, a name without a trailing \<open>.pdf\<close> would give "document.doc". The code
  falls back to that name only when the name after the replacement is empty (or no file
  is selected): the name "scan" stays "scan".
\<close>

theorem fileName_counterexample:
  "\<not> sublist ''.pdf'' (name scan_pdf) \<and> fileName (Some scan_pdf) = ''scan'' \<and> fileName (Some scan_pdf) \<noteq> ''document.doc''"
  by (simp add: fileName_def scan_pdf_def sublist_Cons_right)

text \<open>
  C6, amended. With no file selected, or an empty name, the download name is
  "document.doc". A name that ends in \<open>.pdf\<close> and holds no \<open>.pdf\<close> before that gets
  \<open>.doc\<close> in its place ("report.pdf" gives "report.doc"). A non-empty name that holds no
  \<open>.pdf\<close> is kept as it is.
\<close>

theorem fileName_amended:
  "fileName None = ''document.doc''
   \<and> (\<not> sublist ''.pdf'' stem \<longrightarrow> fileName (Some (f\<lparr>name := stem @ ''.pdf''\<rparr>)) = stem @ ''.doc'')
   \<and> (\<not> sublist ''.pdf'' n \<and> n \<noteq> [] \<longrightarrow> fileName (Some (f\<lparr>name := n\<rparr>)) = n)
   \<and> fileName (Some (f\<lparr>name := []\<rparr>)) = ''document.doc''"
  by (simp add: fileName_def replace_first_trailing replace_first_absent)

theorem fileName_amended_witness:
  "\<not> sublist ''.pdf'' ''report'' \<and> fileName (Some report_pdf) = ''report.doc''
   \<and> \<not> sublist ''.pdf'' ''scan'' \<and> ''scan'' \<noteq> [] \<and> fileName (Some scan_pdf) = ''scan''
   \<and> fileName None = ''document.doc''"
proof -
  have h1: "\<not> sublist ''.pdf'' ''report''" by (simp add: sublist_Cons_right)
  have h2: "\<not> sublist ''.pdf'' ''scan'' \<and> ''scan'' \<noteq> []" by (simp add: sublist_Cons_right)
  have r: "report_pdf\<lparr>name := ''report'' @ ''.pdf''\<rparr> = report_pdf" by (simp add: report_pdf_def)
  have s: "scan_pdf\<lparr>name := ''scan''\<rparr> = scan_pdf" by (simp add: scan_pdf_def)
  from fileName_amended[of "''report''" report_pdf "''scan''"] h1 h2
  have "fileName (Some (report_pdf\<lparr>name := ''report'' @ ''.pdf''\<rparr>)) = ''report'' @ ''.doc''"
    and "fileName (Some (report_pdf\<lparr>name := ''scan''\<rparr>)) = ''scan''"
    and "fileName None = ''document.doc''"
    by blast+
  moreover have "report_pdf\<lparr>name := ''scan''\<rparr> = scan_pdf"
    by (simp add: report_pdf_def scan_pdf_def)
  ultimately show ?thesis using h1 h2 r by simp
qed

text \<open>The replacement takes the first \<open>.pdf\<close> of the name, wherever it is.\<close>

lemma fileName_first_occurrence:
  "fileName (Some \<lparr>name = ''a.pdf.pdf'', type = ''application/pdf'', content = []\<rparr>) = ''a.doc.pdf''"
  by (simp add: fileName_def)

end
